theory Spec2Isabelle
  imports Complex_Main
begin

unbundle bit_operations_syntax

section \<open>Values of the program\<close>

subsection \<open>Floating-point numbers\<close>

text \<open>
  The entries of the matrices, the viewport bounds and the escape radius are Python and
  NumPy floats. They are modelled as the reals extended by the two infinities and by
  not-a-number. An arithmetic operation on finite numbers computes the exact real result
  and hands it to the rounding of the machine, which is a parameter of the model: the
  function from an exact result to the float that is stored (for binary64 the nearest
  double, an infinity when the result overflows, zero when it underflows). The special
  values follow IEEE 754 as NumPy applies it (a division by zero is a value, not an
  exception); zero has no sign. Comparisons, the absolute value, the minimum and the
  maximum do not round.
\<close>

datatype float = Finite real | PInf | NInf | NaN

type_synonym rounding = "real \<Rightarrow> float"

fun flt_lt :: "float \<Rightarrow> float \<Rightarrow> bool" where
  "flt_lt (Finite x) (Finite y) = (x < y)"
| "flt_lt (Finite x) PInf = True"
| "flt_lt NInf (Finite y) = True"
| "flt_lt NInf PInf = True"
| "flt_lt _ _ = False"

fun flt_le :: "float \<Rightarrow> float \<Rightarrow> bool" where
  "flt_le (Finite x) (Finite y) = (x \<le> y)"
| "flt_le (Finite x) PInf = True"
| "flt_le NInf (Finite y) = True"
| "flt_le NInf PInf = True"
| "flt_le NInf NInf = True"
| "flt_le PInf PInf = True"
| "flt_le _ _ = False"

text \<open>Python's builtin \<^verbatim>\<open>min(a, b)\<close>: the first argument unless the second is smaller.\<close>

definition py_min :: "float \<Rightarrow> float \<Rightarrow> float" where
  "py_min a b = (if flt_lt b a then b else a)"

fun fdiv :: "rounding \<Rightarrow> float \<Rightarrow> float \<Rightarrow> float" where
  "fdiv r NaN _ = NaN"
| "fdiv r _ NaN = NaN"
| "fdiv r (Finite x) (Finite y) =
     (if y = 0 then (if x = 0 then NaN else if 0 < x then PInf else NInf)
      else r (x / y))"
| "fdiv r (Finite x) _ = Finite 0"
| "fdiv r PInf (Finite y) = (if 0 \<le> y then PInf else NInf)"
| "fdiv r NInf (Finite y) = (if 0 \<le> y then NInf else PInf)"
| "fdiv r _ _ = NaN"

fun fmul :: "rounding \<Rightarrow> float \<Rightarrow> float \<Rightarrow> float" where
  "fmul r NaN _ = NaN"
| "fmul r _ NaN = NaN"
| "fmul r (Finite x) (Finite y) = r (x * y)"
| "fmul r (Finite x) PInf = (if x = 0 then NaN else if 0 < x then PInf else NInf)"
| "fmul r (Finite x) NInf = (if x = 0 then NaN else if 0 < x then NInf else PInf)"
| "fmul r PInf (Finite y) = (if y = 0 then NaN else if 0 < y then PInf else NInf)"
| "fmul r NInf (Finite y) = (if y = 0 then NaN else if 0 < y then NInf else PInf)"
| "fmul r PInf PInf = PInf"
| "fmul r NInf NInf = PInf"
| "fmul r _ _ = NInf"

fun fadd :: "rounding \<Rightarrow> float \<Rightarrow> float \<Rightarrow> float" where
  "fadd r NaN _ = NaN"
| "fadd r _ NaN = NaN"
| "fadd r (Finite x) (Finite y) = r (x + y)"
| "fadd r (Finite x) b = b"
| "fadd r a (Finite y) = a"
| "fadd r PInf PInf = PInf"
| "fadd r NInf NInf = NInf"
| "fadd r _ _ = NaN"

fun fabs :: "float \<Rightarrow> float" where
  "fabs (Finite x) = Finite \<bar>x\<bar>"
| "fabs PInf = PInf"
| "fabs NInf = PInf"
| "fabs NaN = NaN"

fun np_sqrt :: "rounding \<Rightarrow> float \<Rightarrow> float" where
  "np_sqrt r (Finite x) = (if x < 0 then NaN else r (sqrt x))"
| "np_sqrt r PInf = PInf"
| "np_sqrt r _ = NaN"

text \<open>The conversion of a Python integer that is not negative to a float.\<close>

definition float_of_nat :: "rounding \<Rightarrow> nat \<Rightarrow> float" where
  "float_of_nat r n = r (real n)"

text \<open>NumPy's \<^verbatim>\<open>minimum\<close> and \<^verbatim>\<open>maximum\<close> of two numbers: not-a-number wins.\<close>

definition np_minimum :: "float \<Rightarrow> float \<Rightarrow> float" where
  "np_minimum a b = (if a = NaN \<or> b = NaN then NaN else if flt_lt b a then b else a)"

definition np_maximum :: "float \<Rightarrow> float \<Rightarrow> float" where
  "np_maximum a b = (if a = NaN \<or> b = NaN then NaN else if flt_lt a b then b else a)"

subsection \<open>Exceptions\<close>

datatype error =
    KeyError string
  | TypeError
  | ValueError string
  | LinAlgError
  | MatReadError
  | NetworkXError

text \<open>
  \<^verbatim>\<open>np.min\<close> and \<^verbatim>\<open>np.max\<close> of a sequence: a zero-size array has no
  minimum, which NumPy reports as a \<^verbatim>\<open>ValueError\<close>.
\<close>

fun np_min :: "float list \<Rightarrow> error + float" where
  "np_min [] = Inl (ValueError ''zero-size array to reduction operation minimum'')"
| "np_min (x # xs) = Inr (fold (\<lambda>y m. np_minimum m y) xs x)"

fun np_max :: "float list \<Rightarrow> error + float" where
  "np_max [] = Inl (ValueError ''zero-size array to reduction operation maximum'')"
| "np_max (x # xs) = Inr (fold (\<lambda>y m. np_maximum m y) xs x)"

subsection \<open>Arrays as views of buffers\<close>

text \<open>
  A NumPy array is a view of a buffer: the buffer's address, the position of the first
  entry, the shape and the strides (counted in entries). Slicing and transposition make
  a view of the same buffer; \<^verbatim>\<open>np.clip\<close>, \<^verbatim>\<open>np.abs\<close> and the
  arithmetic operators allocate a buffer; the augmented assignments \<^verbatim>\<open>/=\<close> and
  \<^verbatim>\<open>+=\<close> write into the buffer of their left operand. The heap is the list of
  the buffers allocated so far, and an address is a position in it.
\<close>

type_synonym addr = nat
type_synonym heap = "float list list"

record ndarray =
  base :: addr
  offset :: nat
  shape :: "nat list"
  strides :: "nat list"

definition ndim :: "ndarray \<Rightarrow> nat" where
  "ndim a = length (shape a)"

definition flat_index :: "ndarray \<Rightarrow> nat list \<Rightarrow> nat" where
  "flat_index a idx = offset a + sum_list (map2 (*) idx (strides a))"

definition item :: "heap \<Rightarrow> ndarray \<Rightarrow> nat list \<Rightarrow> float" where
  "item h a idx = (h ! base a) ! flat_index a idx"

text \<open>\<^verbatim>\<open>mat.T\<close>, \<^verbatim>\<open>mat[i]\<close> and \<^verbatim>\<open>mat[..., i]\<close>.\<close>

definition T :: "ndarray \<Rightarrow> ndarray" where
  "T a = a\<lparr>shape := rev (shape a), strides := rev (strides a)\<rparr>"

definition subscript :: "ndarray \<Rightarrow> nat \<Rightarrow> ndarray" where
  "subscript a i =
     a\<lparr>offset := offset a + i * hd (strides a), shape := tl (shape a),
       strides := tl (strides a)\<rparr>"

definition subscript_last :: "ndarray \<Rightarrow> nat \<Rightarrow> ndarray" where
  "subscript_last a i =
     a\<lparr>offset := offset a + i * last (strides a), shape := butlast (shape a),
       strides := butlast (strides a)\<rparr>"

text \<open>Iterating over an array yields \<^verbatim>\<open>a[0]\<close>, \<^verbatim>\<open>a[1]\<close>, ...\<close>

definition iter :: "ndarray \<Rightarrow> ndarray list" where
  "iter a = map (subscript a) [0..<hd (shape a)]"

text \<open>The rows of a matrix as values, and its entries in row-major order.\<close>

definition to_rows :: "heap \<Rightarrow> ndarray \<Rightarrow> float list list" where
  "to_rows h a = map (\<lambda>row. map (\<lambda>x. item h x []) (iter row)) (iter a)"

definition entries :: "heap \<Rightarrow> ndarray \<Rightarrow> float list" where
  "entries h a = concat (to_rows h a)"

fun c_strides :: "nat list \<Rightarrow> nat list" where
  "c_strides [] = []"
| "c_strides (n # ns) = prod_list ns # c_strides ns"

definition new_array :: "nat list \<Rightarrow> float list \<Rightarrow> heap \<Rightarrow> ndarray \<times> heap" where
  "new_array sh d h =
     (\<lparr>base = length h, offset = 0, shape = sh, strides = c_strides sh\<rparr>, h @ [d])"

text \<open>An elementwise operation on a matrix, into a new array.\<close>

definition np_map :: "(float \<Rightarrow> float) \<Rightarrow> heap \<Rightarrow> ndarray \<Rightarrow> ndarray \<times> heap" where
  "np_map f h a = new_array (shape a) (map f (entries h a)) h"

definition np_clip :: "heap \<Rightarrow> ndarray \<Rightarrow> float \<Rightarrow> float \<Rightarrow> ndarray \<times> heap" where
  "np_clip h a a_min a_max = np_map (\<lambda>x. np_minimum (np_maximum x a_min) a_max) h a"

definition np_abs :: "heap \<Rightarrow> ndarray \<Rightarrow> ndarray \<times> heap" where
  "np_abs h a = np_map fabs h a"

text \<open>The positions of a matrix, row by row.\<close>

definition positions :: "ndarray \<Rightarrow> (nat \<times> nat) list" where
  "positions a =
     concat (map (\<lambda>i. map (\<lambda>j. (i, j)) [0..<shape a ! 1]) [0..<hd (shape a)])"

text \<open>\<^verbatim>\<open>a /= x\<close> for a matrix and a number: every entry of the view is replaced in its buffer.\<close>

definition idiv :: "rounding \<Rightarrow> heap \<Rightarrow> ndarray \<Rightarrow> float \<Rightarrow> heap" where
  "idiv r h a x =
     h[base a := fold (\<lambda>(i, j) buf. buf[flat_index a [i, j] := fdiv r (buf ! flat_index a [i, j]) x])
                  (positions a) (h ! base a)]"

text \<open>
  \<^verbatim>\<open>a += b\<close> for two matrices: \<^verbatim>\<open>b\<close> is broadcast to the shape of \<^verbatim>\<open>a\<close>
  (an axis of length one is repeated); a shape that cannot be broadcast is a
  \<^verbatim>\<open>ValueError\<close>.
\<close>

definition broadcastable :: "nat list \<Rightarrow> nat list \<Rightarrow> bool" where
  "broadcastable sb sa =
     (length sb = 2 \<and> length sa = 2 \<and> (sb ! 0 = sa ! 0 \<or> sb ! 0 = 1) \<and> (sb ! 1 = sa ! 1 \<or> sb ! 1 = 1))"

definition iadd :: "rounding \<Rightarrow> heap \<Rightarrow> ndarray \<Rightarrow> ndarray \<Rightarrow> error + heap" where
  "iadd r h a b =
     (if broadcastable (shape b) (shape a) then
        Inr (h[base a := fold (\<lambda>(i, j) buf. buf[flat_index a [i, j] :=
                 fadd r (buf ! flat_index a [i, j])
                      (item h b [if shape b ! 0 = 1 then 0 else i, if shape b ! 1 = 1 then 0 else j])])
               (positions a) (h ! base a)])
      else Inl (ValueError ''operands could not be broadcast together''))"

subsection \<open>Documents, paths, files and the log\<close>

text \<open>
  What \<^verbatim>\<open>json.dump\<close> is given: numbers, lists (a tuple is written as a list)
  and objects whose keys are kept in insertion order (\<^verbatim>\<open>sort_keys=False\<close>).
\<close>

datatype json = JFloat float | JInt nat | JArray "json list" | JObject "(string \<times> json) list"

text \<open>
  A \<^verbatim>\<open>pathlib.Path\<close>: the directory, the stem of the file name and its suffix.
\<close>

record path =
  parent :: string
  stem :: string
  suffix :: string

definition with_stem :: "path \<Rightarrow> string \<Rightarrow> path" where
  "with_stem p s = p\<lparr>stem := s\<rparr>"

definition with_suffix :: "path \<Rightarrow> string \<Rightarrow> path" where
  "with_suffix p s = p\<lparr>suffix := s\<rparr>"

text \<open>
  A MATLAB file holds named values: dense tensors of doubles (a shape and the entries in
  row-major order) and values of other kinds, of which only the name of the Python type
  that \<^verbatim>\<open>loadmat\<close> gives them matters here.
\<close>

datatype matvalue = Tensor "nat list" "float list" | Opaque string

datatype file_content = MatFile "(string \<times> matvalue) list" | JsonFile json | EmptyFile

datatype level = INFO | WARNING | ERROR

text \<open>
  The state of a run: the file system, the calls made on the logger (level and message
  template, without the formatted arguments) and the heap of array buffers.
\<close>

record world =
  files :: "path \<Rightarrow> file_content option"
  logged :: "(level \<times> string) list"
  heap :: heap

definition exists :: "world \<Rightarrow> path \<Rightarrow> bool" where
  "exists w p = (files w p \<noteq> None)"

definition log_info :: "world \<Rightarrow> string \<Rightarrow> world" where
  "log_info w msg = w\<lparr>logged := logged w @ [(INFO, msg)]\<rparr>"

definition log_warning :: "world \<Rightarrow> string \<Rightarrow> world" where
  "log_warning w msg = w\<lparr>logged := logged w @ [(WARNING, msg)]\<rparr>"

definition log_error :: "world \<Rightarrow> string \<Rightarrow> world" where
  "log_error w msg = w\<lparr>logged := logged w @ [(ERROR, msg)]\<rparr>"

text \<open>
  The dictionary that \<^verbatim>\<open>scipy.io.loadmat\<close> returns maps a name to an array or
  to another Python object. Every tensor of the file gets a buffer of its own; a file
  that is not a MATLAB file, or whose tensor does not have as many entries as its shape
  says, cannot be read.
\<close>

datatype pyobj = Array ndarray | Other string

fun load_vars ::
  "(string \<times> matvalue) list \<Rightarrow> (string \<Rightarrow> pyobj option) \<Rightarrow> heap
     \<Rightarrow> error + ((string \<Rightarrow> pyobj option) \<times> heap)" where
  "load_vars [] d h = Inr (d, h)"
| "load_vars ((k, Opaque t) # kvs) d h = load_vars kvs (d(k \<mapsto> Other t)) h"
| "load_vars ((k, Tensor sh xs) # kvs) d h =
     (if length xs = prod_list sh then
        load_vars kvs (d(k \<mapsto> Array (fst (new_array sh xs h)))) (snd (new_array sh xs h))
      else Inl MatReadError)"

definition loadmat :: "world \<Rightarrow> path \<Rightarrow> (error + (string \<Rightarrow> pyobj option)) \<times> world" where
  "loadmat w p =
     (case files w p of
        Some (MatFile kvs) \<Rightarrow>
          (case load_vars kvs Map.empty (heap w) of
             Inl e \<Rightarrow> (Inl e, w)
           | Inr (d, h) \<Rightarrow> (Inr d, w\<lparr>heap := h\<rparr>))
      | _ \<Rightarrow> (Inl MatReadError, w))"

subsection \<open>The arithmetic of the machine and the linear algebra library\<close>

text \<open>
  \<^verbatim>\<open>np.linalg.svdvals\<close> and \<^verbatim>\<open>la.norm\<close> with the orders 1, 2, inf, fro and
  nuc belong to NumPy, not to this repository: they are parameters of the model. Each
  takes the rows of a matrix and returns a value or raises. The rounding of the
  arithmetic is the third parameter.
\<close>

datatype norm_ord = Ord_1 | Ord_2 | Ord_inf | Ord_fro | Ord_nuc

record linalg =
  rounding :: rounding
  svdvals :: "float list list \<Rightarrow> error + float list"
  la_norm :: "float list list \<Rightarrow> norm_ord \<Rightarrow> error + float"

section \<open>generate-exhibits.py\<close>

definition DEFAULT_UPPER_LEFT :: "float \<times> float" where
  "DEFAULT_UPPER_LEFT = (Finite (- 10.25), Finite 4.25)"

definition DEFAULT_LOWER_RIGHT :: "float \<times> float" where
  "DEFAULT_LOWER_RIGHT = (Finite 7.5, Finite (- 7.5))"

text \<open>
  \<^verbatim>\<open>serde_matrix_format\<close>: the entries of the rows of \<^verbatim>\<open>mat.T\<close>, each paired
  with a zero imaginary part, followed by the shape of \<^verbatim>\<open>mat\<close>.
\<close>

definition serde_matrix_format :: "heap \<Rightarrow> ndarray \<Rightarrow> json" where
  "serde_matrix_format h mat =
     JArray (JArray (concat (map (\<lambda>row. map (\<lambda>x. JArray [JFloat (item h x []), JFloat (Finite 0)])
                                   (iter row)) (iter (T mat))))
             # map JInt (shape mat))"

definition estimate_escape_radius :: "linalg \<Rightarrow> heap \<Rightarrow> ndarray \<Rightarrow> error + float" where
  "estimate_escape_radius L h mat =
     (let n = hd (shape mat) in
      case svdvals L (to_rows h mat) of
        Inl e \<Rightarrow> Inl e
      | Inr sigma \<Rightarrow>
          (case np_min sigma of
             Inl e \<Rightarrow> Inl e
           | Inr m \<Rightarrow>
               Inr (fdiv (rounding L)
                      (fmul (rounding L) (Finite 2) (np_sqrt (rounding L) (float_of_nat (rounding L) n)))
                      (fmul (rounding L) m m))))"

text \<open>
  \<^verbatim>\<open>dump\<close>. The file is opened for writing, which creates or empties it, before
  the escape radius is estimated; an exception of the estimate leaves it empty. The
  condition number is computed for the log message only, from the same singular values.
\<close>

definition dump ::
  "linalg \<Rightarrow> path \<Rightarrow> ndarray \<Rightarrow> float \<times> float \<Rightarrow> float \<times> float \<Rightarrow> float option \<Rightarrow> bool
     \<Rightarrow> world \<Rightarrow> (error + int) \<times> world" where
  "dump L outfile mat upper_left lower_right max_escape_radius overwrite w =
     (if \<not> overwrite \<and> exists w outfile then
        (Inr 1, log_error w ''Output file exists (use --overwrite)'')
      else
        let ceiling = (case max_escape_radius of None \<Rightarrow> PInf | Some r \<Rightarrow> r);
            w1 = w\<lparr>files := (files w)(outfile \<mapsto> EmptyFile)\<rparr>
        in case estimate_escape_radius L (heap w1) mat of
             Inl e \<Rightarrow> (Inl e, w1)
           | Inr escape_radius \<Rightarrow>
               let exhibit_escape_radius = py_min escape_radius ceiling;
                   w2 = log_info w1 ''Dumping exhibit'';
                   w3 = w2\<lparr>files := (files w2)(outfile \<mapsto> JsonFile (JObject
                          [(''mat'', serde_matrix_format (heap w2) mat),
                           (''escape_radius'', JFloat exhibit_escape_radius),
                           (''upper_left'', JArray [JFloat (fst upper_left), JFloat (snd upper_left)]),
                           (''lower_right'', JArray [JFloat (fst lower_right), JFloat (snd lower_right)])]))\<rparr>
               in (Inr 0, log_info w3 ''Saved matrix''))"

subsection \<open>Decimal numerals of file names\<close>

text \<open>
  \<^verbatim>\<open>str(n)\<close> for a natural number, and the format \<^verbatim>\<open>{i:0{width}}\<close>: the decimal
  digits, filled with zeros on the left up to the width.
\<close>

definition digit_char :: "nat \<Rightarrow> char" where
  "digit_char d = ''0123456789'' ! d"

function str_nat :: "nat \<Rightarrow> string" where
  "str_nat n = (if n < 10 then [digit_char n] else str_nat (n div 10) @ [digit_char (n mod 10)])"
  by pat_completeness auto
termination
  by (relation "measure id") auto

declare str_nat.simps [simp del]

definition format_zero_padded :: "nat \<Rightarrow> nat \<Rightarrow> string" where
  "format_zero_padded i width = replicate (width - length (str_nat i)) (CHR ''0'') @ str_nat i"

subsection \<open>convert\_matlab\<close>

record convert_args =
  filename :: path
  outfile :: "path option"
  mat_variable_names :: "string list option"
  upper_left :: "(float \<times> float) option"
  lower_right :: "(float \<times> float) option"
  max_escape_radius :: "float option"
  clip :: "(float \<times> float) option"
  transpose_flag :: bool
  normalize_mode :: "string option"
  absolute :: bool
  include_average :: bool
  overwrite :: bool

text \<open>
  The loop that reads the matrices (lines 172 to 196), with its accumulators
  \<^verbatim>\<open>ret\<close> and \<^verbatim>\<open>matrices\<close>. \<^verbatim>\<open>result[name]\<close> raises
  \<^verbatim>\<open>KeyError\<close> for a name the dictionary lacks.
\<close>

fun read_matrices ::
  "bool \<Rightarrow> (string \<Rightarrow> pyobj option) \<Rightarrow> string list \<Rightarrow> int \<Rightarrow> ndarray list \<Rightarrow> world
     \<Rightarrow> (error + (int \<times> ndarray list)) \<times> world" where
  "read_matrices tr result [] ret matrices w = (Inr (ret, matrices), w)"
| "read_matrices tr result (name # names) ret matrices w =
     (case result name of
        None \<Rightarrow> (Inl (KeyError name), w)
      | Some (Other tn) \<Rightarrow>
          read_matrices tr result names 1 matrices (log_error w ''Object is not an ndarray'')
      | Some (Array mat) \<Rightarrow>
          if ndim mat = 2 then
            read_matrices tr result names ret (matrices @ [if tr then T mat else mat])
              (log_info w ''Read a matrix'')
          else if ndim mat = 3 then
            read_matrices tr result names ret
              (matrices @ (if tr then map (subscript_last mat) [0..<last (shape mat)]
                           else map (subscript mat) [0..<hd (shape mat)]))
              (log_info w ''Read a matrix'')
          else
            read_matrices tr result names 1 matrices
              (log_error w ''Object has unsupported shape''))"

text \<open>
  The transformations of one matrix (lines 209 to 231): \<^verbatim>\<open>np.clip\<close> and
  \<^verbatim>\<open>np.abs\<close> return a new array, \<^verbatim>\<open>mat_i /= ...\<close> divides the array that
  \<^verbatim>\<open>mat_i\<close> names at that point in place.
\<close>

definition divide_by ::
  "linalg \<Rightarrow> error + float \<Rightarrow> ndarray \<Rightarrow> world \<Rightarrow> (error + ndarray) \<times> world" where
  "divide_by L s mat_i w =
     (case s of
        Inl e \<Rightarrow> (Inl e, w)
      | Inr x \<Rightarrow> (Inr mat_i, w\<lparr>heap := idiv (rounding L) (heap w) mat_i x\<rparr>))"

definition clip_step :: "(float \<times> float) option \<Rightarrow> ndarray \<Rightarrow> world \<Rightarrow> ndarray \<times> world" where
  "clip_step c mat_i w =
     (case c of
        None \<Rightarrow> (mat_i, w)
      | Some b \<Rightarrow> (fst (np_clip (heap w) mat_i (fst b) (snd b)),
                   w\<lparr>heap := snd (np_clip (heap w) mat_i (fst b) (snd b))\<rparr>))"

definition abs_step :: "bool \<Rightarrow> ndarray \<Rightarrow> world \<Rightarrow> ndarray \<times> world" where
  "abs_step ab mat_i w =
     (if ab then (fst (np_abs (heap w) mat_i), w\<lparr>heap := snd (np_abs (heap w) mat_i)\<rparr>)
      else (mat_i, w))"

definition normalize_step ::
  "linalg \<Rightarrow> string option \<Rightarrow> ndarray \<Rightarrow> world \<Rightarrow> (error + ndarray) \<times> world" where
  "normalize_step L nm mat_i w =
     (case nm of
        None \<Rightarrow> (Inr mat_i, w)
      | Some mode \<Rightarrow>
          if mode = ''1'' then divide_by L (la_norm L (to_rows (heap w) mat_i) Ord_1) mat_i w
          else if mode = ''2'' then divide_by L (la_norm L (to_rows (heap w) mat_i) Ord_2) mat_i w
          else if mode = ''inf'' then divide_by L (la_norm L (to_rows (heap w) mat_i) Ord_inf) mat_i w
          else if mode = ''fro'' then divide_by L (la_norm L (to_rows (heap w) mat_i) Ord_fro) mat_i w
          else if mode = ''nuc'' then divide_by L (la_norm L (to_rows (heap w) mat_i) Ord_nuc) mat_i w
          else if mode = ''max'' then divide_by L (np_max (map fabs (entries (heap w) mat_i))) mat_i w
          else (Inl (ValueError ''Unknown norm type''), w))"

definition transform_matrix ::
  "linalg \<Rightarrow> (float \<times> float) option \<Rightarrow> bool \<Rightarrow> string option \<Rightarrow> ndarray \<Rightarrow> world
     \<Rightarrow> (error + ndarray) \<times> world" where
  "transform_matrix L c ab nm mat w =
     (let (m1, w1) = clip_step c mat w;
          (m2, w2) = abs_step ab m1 w1
      in normalize_step L nm m2 w2)"

text \<open>
  \<^verbatim>\<open>mat_avg += mat_i\<close>: \<^verbatim>\<open>mat_avg\<close> starts as the integer 0 (here
  \<^verbatim>\<open>None\<close>), so the first sum is \<^verbatim>\<open>0 + mat_i\<close>, a new array; the later
  ones add into that array.
\<close>

definition add_to_average ::
  "linalg \<Rightarrow> ndarray option \<Rightarrow> ndarray \<Rightarrow> world \<Rightarrow> (error + ndarray) \<times> world" where
  "add_to_average L mat_avg mat_i w =
     (case mat_avg of
        None \<Rightarrow> (Inr (fst (np_map (fadd (rounding L) (Finite 0)) (heap w) mat_i)),
                 w\<lparr>heap := snd (np_map (fadd (rounding L) (Finite 0)) (heap w) mat_i)\<rparr>)
      | Some a \<Rightarrow>
          (case iadd (rounding L) (heap w) a mat_i of
             Inl e \<Rightarrow> (Inl e, w)
           | Inr h \<Rightarrow> (Inr a, w\<lparr>heap := h\<rparr>)))"

definition outfile_i :: "path \<Rightarrow> nat \<Rightarrow> nat \<Rightarrow> path" where
  "outfile_i out width i = with_stem out (stem out @ ''-'' @ format_zero_padded i width)"

text \<open>
  The loop that writes the matrices (lines 208 to 242), with the index \<^verbatim>\<open>i\<close> and
  the accumulators \<^verbatim>\<open>mat_avg\<close> and \<^verbatim>\<open>ret\<close>.
\<close>

fun write_matrices ::
  "linalg \<Rightarrow> convert_args \<Rightarrow> path \<Rightarrow> float \<times> float \<Rightarrow> float \<times> float \<Rightarrow> nat
     \<Rightarrow> ndarray list \<Rightarrow> nat \<Rightarrow> ndarray option \<Rightarrow> int \<Rightarrow> world
     \<Rightarrow> (error + (int \<times> ndarray option)) \<times> world" where
  "write_matrices L args out ul lr width [] i mat_avg ret w = (Inr (ret, mat_avg), w)"
| "write_matrices L args out ul lr width (mat # mats) i mat_avg ret w =
     (case transform_matrix L (clip args) (absolute args) (normalize_mode args) mat w of
        (Inl e, w1) \<Rightarrow> (Inl e, w1)
      | (Inr mat_i, w1) \<Rightarrow>
          (case add_to_average L mat_avg mat_i w1 of
             (Inl e, w2) \<Rightarrow> (Inl e, w2)
           | (Inr avg, w2) \<Rightarrow>
               (case dump L (outfile_i out width i) mat_i ul lr (max_escape_radius args)
                       (overwrite args) w2 of
                  (Inl e, w3) \<Rightarrow> (Inl e, w3)
                | (Inr status, w3) \<Rightarrow>
                    write_matrices L args out ul lr width mats (Suc i) (Some avg)
                      (ret OR status) w3)))"

text \<open>
  The record of the average (lines 244 to 253). The loop has run over at least one matrix
  when this is reached, so \<^verbatim>\<open>mat_avg\<close> is an array; the case of the integer 0 is
  kept only to make the function total.
\<close>

definition write_average ::
  "linalg \<Rightarrow> convert_args \<Rightarrow> path \<Rightarrow> float \<times> float \<Rightarrow> float \<times> float \<Rightarrow> nat
     \<Rightarrow> ndarray option \<Rightarrow> int \<Rightarrow> world \<Rightarrow> (error + int) \<times> world" where
  "write_average L args out ul lr n mat_avg ret w =
     (case mat_avg of
        None \<Rightarrow> (Inl TypeError, w)
      | Some a \<Rightarrow>
          (case dump L (with_stem out (stem out @ ''-avg''))
                  (fst (np_map (\<lambda>x. fdiv (rounding L) x (float_of_nat (rounding L) n)) (heap w) a))
                  ul lr (max_escape_radius args) (overwrite args)
                  (w\<lparr>heap := snd (np_map (\<lambda>x. fdiv (rounding L) x (float_of_nat (rounding L) n))
                                     (heap w) a)\<rparr>) of
             (Inl e, w1) \<Rightarrow> (Inl e, w1)
           | (Inr status, w1) \<Rightarrow> (Inr (ret OR status), w1)))"

definition convert_matlab :: "linalg \<Rightarrow> convert_args \<Rightarrow> world \<Rightarrow> (error + int) \<times> world" where
  "convert_matlab L args w =
     (if \<not> exists w (filename args) then (Inr 1, log_error w ''File does not exist'')
      else
        let out = (case outfile args of None \<Rightarrow> with_suffix (filename args) ''.json'' | Some p \<Rightarrow> p);
            names = (case mat_variable_names args of None \<Rightarrow> [] | Some ns \<Rightarrow> ns);
            ul = (case upper_left args of None \<Rightarrow> DEFAULT_UPPER_LEFT | Some p \<Rightarrow> p);
            lr = (case lower_right args of None \<Rightarrow> DEFAULT_LOWER_RIGHT | Some p \<Rightarrow> p)
        in
          if flt_lt (fst lr) (fst ul) then (Inr 1, log_error w ''Invalid bounds: xmin xmax'')
          else if flt_lt (snd ul) (snd lr) then (Inr 1, log_error w ''Invalid bounds: ymin ymax'')
          else
            (case max_escape_radius args of
               None \<Rightarrow> (Inl TypeError, w)
             | Some r \<Rightarrow>
                 if flt_le r (Finite 0) then
                   (Inr 1, log_error w ''Negative maximum escape radius'')
                 else
                   (case loadmat w (filename args) of
                      (Inl e, w1) \<Rightarrow> (Inl e, w1)
                    | (Inr result, w1) \<Rightarrow>
                        (case read_matrices (transpose_flag args) result names 0 [] w1 of
                           (Inl e, w2) \<Rightarrow> (Inl e, w2)
                         | (Inr (ret, matrices), w2) \<Rightarrow>
                             if matrices = [] then
                               (Inr ret, log_warning w2 ''Failed to read any matrices'')
                             else
                               (case write_matrices L args out ul lr
                                       (length (str_nat (length matrices))) matrices 0 None ret w2 of
                                  (Inl e, w3) \<Rightarrow> (Inl e, w3)
                                | (Inr (ret', mat_avg), w3) \<Rightarrow>
                                    if include_average args then
                                      write_average L args out ul lr (length matrices) mat_avg ret' w3
                                    else (Inr ret', w3))))))"

section \<open>check-subnetwork-connectedness.py\<close>

text \<open>
  The graph library is a parameter as well: from the rows of a matrix, the number of
  nodes, the number of edges and whether the graph is connected, or an exception.
\<close>

type_synonym graph_metrics = "float list list \<Rightarrow> error + (nat \<times> nat \<times> bool)"

fun read_tensors ::
  "(string \<Rightarrow> pyobj option) \<Rightarrow> string list \<Rightarrow> int \<Rightarrow> ndarray list \<Rightarrow> world
     \<Rightarrow> (error + (int \<times> ndarray list)) \<times> world" where
  "read_tensors contents [] ret matrices w = (Inr (ret, matrices), w)"
| "read_tensors contents (name # names) ret matrices w =
     (case contents name of
        None \<Rightarrow> (Inl (KeyError name), w)
      | Some (Other tn) \<Rightarrow>
          read_tensors contents names 1 matrices (log_error w ''Object is not an ndarray'')
      | Some (Array mat) \<Rightarrow>
          if ndim mat \<noteq> 3 then
            read_tensors contents names 1 matrices (log_error w ''Object has unsupported shape'')
          else
            read_tensors contents names ret
              (matrices @ map (subscript_last mat) [0..<last (shape mat)])
              (log_info w ''Read a matrix''))"

fun check_matrices ::
  "graph_metrics \<Rightarrow> float \<times> float \<Rightarrow> ndarray list \<Rightarrow> world \<Rightarrow> (error + unit) \<times> world" where
  "check_matrices nx c [] w = (Inr (), w)"
| "check_matrices nx c (mat # mats) w =
     (let cmat = fst (np_clip (heap w) mat (fst c) (snd c));
          w1 = w\<lparr>heap := snd (np_clip (heap w) mat (fst c) (snd c))\<rparr>
      in case nx (to_rows (heap w1) mat) of
           Inl e \<Rightarrow> (Inl e, w1)
         | Inr m \<Rightarrow>
             (case nx (to_rows (heap w1) cmat) of
                Inl e \<Rightarrow> (Inl e, log_info w1 ''Exhibit: nnodes edges connected'')
              | Inr m' \<Rightarrow>
                  check_matrices nx c mats
                    (log_info (log_info w1 ''Exhibit: nnodes edges connected'')
                       ''nnodes edges connected'')))"

definition check_connected ::
  "graph_metrics \<Rightarrow> path \<Rightarrow> string list option \<Rightarrow> (float \<times> float) option \<Rightarrow> world
     \<Rightarrow> (error + int) \<times> world" where
  "check_connected nx fname names_opt clip_opt w =
     (if \<not> exists w fname then (Inr 1, log_error w ''File does not exist'')
      else
        let names = (case names_opt of None \<Rightarrow> [] | Some ns \<Rightarrow> ns);
            c = (case clip_opt of None \<Rightarrow> (Finite 0, PInf) | Some b \<Rightarrow> b)
        in case loadmat w fname of
             (Inl e, w1) \<Rightarrow> (Inl e, w1)
           | (Inr contents, w1) \<Rightarrow>
               (case read_tensors contents names 0 [] w1 of
                  (Inl e, w2) \<Rightarrow> (Inl e, w2)
                | (Inr (ret, matrices), w2) \<Rightarrow>
                    (case check_matrices nx c matrices w2 of
                       (Inl e, w3) \<Rightarrow> (Inl e, w3)
                     | (Inr u, w3) \<Rightarrow> (Inr ret, w3))))"

section \<open>Notions used in the statements\<close>

text \<open>
  The output path of a run and the matrices it extracts, as \<^verbatim>\<open>convert_matlab\<close>
  computes them before it writes.
\<close>

definition out_path :: "convert_args \<Rightarrow> path" where
  "out_path args = (case outfile args of None \<Rightarrow> with_suffix (filename args) ''.json'' | Some p \<Rightarrow> p)"

definition requested_names :: "convert_args \<Rightarrow> string list" where
  "requested_names args = (case mat_variable_names args of None \<Rightarrow> [] | Some ns \<Rightarrow> ns)"

definition viewport_upper_left :: "convert_args \<Rightarrow> float \<times> float" where
  "viewport_upper_left args = (case upper_left args of None \<Rightarrow> DEFAULT_UPPER_LEFT | Some p \<Rightarrow> p)"

definition viewport_lower_right :: "convert_args \<Rightarrow> float \<times> float" where
  "viewport_lower_right args = (case lower_right args of None \<Rightarrow> DEFAULT_LOWER_RIGHT | Some p \<Rightarrow> p)"

definition extracted :: "convert_args \<Rightarrow> world \<Rightarrow> ndarray list" where
  "extracted args w =
     (case loadmat w (filename args) of
        (Inl e, w1) \<Rightarrow> []
      | (Inr result, w1) \<Rightarrow>
          (case read_matrices (transpose_flag args) result (requested_names args) 0 [] w1 of
             (Inl e, w2) \<Rightarrow> []
           | (Inr (ret, matrices), w2) \<Rightarrow> matrices))"

text \<open>
  The status with which the extraction ends: 1 when a requested variable was skipped
  (it was not an array, or its rank was not supported) and 0 otherwise.
\<close>

definition extraction_status :: "convert_args \<Rightarrow> world \<Rightarrow> int" where
  "extraction_status args w =
     (case loadmat w (filename args) of
        (Inl e, w1) \<Rightarrow> 0
      | (Inr result, w1) \<Rightarrow>
          (case read_matrices (transpose_flag args) result (requested_names args) 0 [] w1 of
             (Inl e, w2) \<Rightarrow> 0
           | (Inr (ret, matrices), w2) \<Rightarrow> ret))"

definition suffix_width :: "convert_args \<Rightarrow> world \<Rightarrow> nat" where
  "suffix_width args w = length (str_nat (length (extracted args w)))"



text \<open>The checks of the arguments that \<^verbatim>\<open>convert_matlab\<close> makes before it reads.\<close>

definition passes_validation :: "convert_args \<Rightarrow> world \<Rightarrow> bool" where
  "passes_validation args w =
     (exists w (filename args) \<and>
      \<not> flt_lt (fst (viewport_lower_right args)) (fst (viewport_upper_left args)) \<and>
      \<not> flt_lt (snd (viewport_upper_left args)) (snd (viewport_lower_right args)) \<and>
      (case max_escape_radius args of None \<Rightarrow> False | Some r \<Rightarrow> \<not> flt_le r (Finite 0)))"




text \<open>The number of refused writes that the log reports.\<close>

definition refusals_logged :: "world \<Rightarrow> nat" where
  "refusals_logged w =
     length (filter (\<lambda>e. e = (ERROR, ''Output file exists (use --overwrite)'')) (logged w))"





text \<open>
  What the statements about the arithmetic ask of the rounding: zero and one are stored
  as they are, and of two exact results the larger one is not stored as the smaller
  float. The rounding to the nearest double is of this kind.
\<close>

definition faithful :: "rounding \<Rightarrow> bool" where
  "faithful r = (r 0 = Finite 0 \<and> r 1 = Finite 1 \<and> (\<forall>x y. x \<le> y \<longrightarrow> flt_le (r x) (r y)))"



section \<open>Inputs of the examples\<close>

text \<open>
  A stand-in for the two libraries in the closed examples below: exact on the matrices
  the examples use (matrices with one finite entry, permutation matrices, whose
  singular values are all 1, and for the singular values also diagonal matrices, whose
  singular values are the absolute values of the diagonal in descending order) and
  raising on every other matrix. Its arithmetic is exact.
\<close>

definition unit_row :: "nat \<Rightarrow> float list \<Rightarrow> bool" where
  "unit_row n row =
     (length row = n \<and> list_all (\<lambda>x. x = Finite 0 \<or> x = Finite 1) row \<and>
      length (filter (\<lambda>x. x = Finite 1) row) = 1)"

definition permutation_rows :: "float list list \<Rightarrow> bool" where
  "permutation_rows m = (list_all (unit_row (length m)) m \<and> distinct m)"

definition diagonal_rows :: "float list list \<Rightarrow> bool" where
  "diagonal_rows m =
     list_all (\<lambda>i. length (m ! i) = length m \<and>
                 list_all (\<lambda>j. if i = j then (case m ! i ! j of Finite x \<Rightarrow> True | _ \<Rightarrow> False)
                               else m ! i ! j = Finite 0) [0..<length m])
       [0..<length m]"

fun insert_descending :: "float \<Rightarrow> float list \<Rightarrow> float list" where
  "insert_descending x [] = [x]"
| "insert_descending x (y # ys) =
     (if flt_lt x y then y # insert_descending x ys else x # y # ys)"

definition example_svdvals :: "float list list \<Rightarrow> error + float list" where
  "example_svdvals m =
     (case m of
        [[Finite x]] \<Rightarrow> Inr [Finite \<bar>x\<bar>]
      | [[x]] \<Rightarrow> Inl LinAlgError
      | _ \<Rightarrow> if permutation_rows m then Inr (replicate (length m) (Finite 1))
             else if diagonal_rows m then
               Inr (foldr insert_descending (map (\<lambda>i. fabs (m ! i ! i)) [0..<length m]) [])
             else Inl LinAlgError)"

definition example_norm :: "float list list \<Rightarrow> norm_ord \<Rightarrow> error + float" where
  "example_norm m ord =
     (case m of
        [[Finite x]] \<Rightarrow> Inr (Finite \<bar>x\<bar>)
      | [[x]] \<Rightarrow> Inl LinAlgError
      | _ \<Rightarrow> if permutation_rows m then
               Inr (case ord of
                      Ord_fro \<Rightarrow> Finite (sqrt (real (length m)))
                    | Ord_nuc \<Rightarrow> Finite (real (length m))
                    | _ \<Rightarrow> Finite 1)
             else Inl LinAlgError)"

definition example_linalg :: linalg where
  "example_linalg = \<lparr>rounding = Finite, svdvals = example_svdvals, la_norm = example_norm\<rparr>"



definition example_graph :: graph_metrics where
  "example_graph m =
     (case m of
        [[x]] \<Rightarrow> Inr (1, if x = Finite 0 then 0 else 1, True)
      | _ \<Rightarrow> Inl NetworkXError)"

text \<open>
  The input file \<^verbatim>\<open>./data.mat\<close>, alone in the file system, with the given
  variables; and the arguments of a run on it with the given variable names, a ceiling
  of 100 and every other option at its default.
\<close>

definition data_mat :: path where
  "data_mat = \<lparr>parent = ''.'', stem = ''data'', suffix = ''.mat''\<rparr>"

definition data_json :: "string \<Rightarrow> path" where
  "data_json s = \<lparr>parent = ''.'', stem = ''data-'' @ s, suffix = ''.json''\<rparr>"

definition world_with :: "(string \<times> matvalue) list \<Rightarrow> world" where
  "world_with kvs = \<lparr>files = [data_mat \<mapsto> MatFile kvs], logged = [], heap = []\<rparr>"

definition args_for :: "string list option \<Rightarrow> convert_args" where
  "args_for names =
     \<lparr>filename = data_mat, outfile = None, mat_variable_names = names, upper_left = None,
      lower_right = None, max_escape_radius = Some (Finite 100), clip = None,
      transpose_flag = False, normalize_mode = None, absolute = False,
      include_average = False, overwrite = False\<rparr>"

text \<open>A file system in which \<^verbatim>\<open>./data.mat\<close> exists and is empty.\<close>

definition empty_input_world :: world where
  "empty_input_world = \<lparr>files = [data_mat \<mapsto> EmptyFile], logged = [], heap = []\<rparr>"

text \<open>
  The variables of the examples: a matrix with the one entry 2, a string, a tensor of
  shape (2, 1, 2) with the entries 1 to 4, and a tensor of shape (3, 4, 4) made of three
  permutation matrices.
\<close>

definition permutation_matrix :: "nat list \<Rightarrow> float list" where
  "permutation_matrix ks =
     concat (map (\<lambda>k. map (\<lambda>j. if j = k then Finite 1 else Finite 0) [0..<length ks]) ks)"

definition small_vars :: "(string \<times> matvalue) list" where
  "small_vars =
     [(''m'', Tensor [1, 1] [Finite 2]),
      (''note'', Opaque ''str''),
      (''t'', Tensor [2, 1, 2] [Finite 1, Finite 2, Finite 3, Finite 4])]"

definition tensor_344 :: "(string \<times> matvalue) list" where
  "tensor_344 =
     [(''matrices'', Tensor [3, 4, 4]
        (permutation_matrix [0, 1, 2, 3] @ permutation_matrix [1, 2, 3, 0] @
         permutation_matrix [1, 0, 2, 3]))]"

text \<open>
  Arrays that are already on the heap: a matrix with one entry, a matrix with no entry,
  the 3 by 3 permutation matrix with the rows (0 1 0), (0 0 1), (1 0 0), a 4 by 4 matrix
  (in the examples a diagonal one) and the tensor of shape (2, 1, 2) above.
\<close>

definition heap_world :: "heap \<Rightarrow> world" where
  "heap_world h = \<lparr>files = Map.empty, logged = [], heap = h\<rparr>"

definition matrix_1x1 :: ndarray where
  "matrix_1x1 = \<lparr>base = 0, offset = 0, shape = [1, 1], strides = [1, 1]\<rparr>"

definition matrix_0x0 :: ndarray where
  "matrix_0x0 = \<lparr>base = 0, offset = 0, shape = [0, 0], strides = [0, 1]\<rparr>"

definition matrix_3x3 :: ndarray where
  "matrix_3x3 = \<lparr>base = 0, offset = 0, shape = [3, 3], strides = [3, 1]\<rparr>"

definition matrix_4x4 :: ndarray where
  "matrix_4x4 = \<lparr>base = 0, offset = 0, shape = [4, 4], strides = [4, 1]\<rparr>"

definition diagonal_matrix :: "real list \<Rightarrow> float list" where
  "diagonal_matrix ds =
     concat (map (\<lambda>i. map (\<lambda>j. if j = i then Finite (ds ! i) else Finite 0) [0..<length ds])
               [0..<length ds])"

definition cyclic_heap :: heap where
  "cyclic_heap = [permutation_matrix [1, 2, 0]]"

definition tensor_212 :: ndarray where
  "tensor_212 = \<lparr>base = 0, offset = 0, shape = [2, 1, 2], strides = [2, 2, 1]\<rparr>"

definition heap_212 :: heap where
  "heap_212 = [[Finite 1, Finite 2, Finite 3, Finite 4]]"






section \<open>Lemmas\<close>

subsection \<open>The file names of a run are distinct\<close>













subsection \<open>What a write and the transformations leave alone\<close>




lemma dump_status:
  "fst (dump L p m ul lr mer ov w) = Inr st \<Longrightarrow> st = (if \<not> ov \<and> exists w p then 1 else 0)"
  by (auto simp: dump_def Let_def split: sum.splits if_splits)

lemma dump_written:
  assumes "fst (dump L p m ul lr mer ov w) = Inr st" and "ov \<or> \<not> exists w p"
  shows "\<exists>e. estimate_escape_radius L (heap w) m = Inr e \<and>
           files (snd (dump L p m ul lr mer ov w)) p = Some (JsonFile (JObject
             [(''mat'', serde_matrix_format (heap w) m),
              (''escape_radius'', JFloat (py_min e (case mer of None \<Rightarrow> PInf | Some r \<Rightarrow> r))),
              (''upper_left'', JArray [JFloat (fst ul), JFloat (snd ul)]),
              (''lower_right'', JArray [JFloat (fst lr), JFloat (snd lr)])]))"
  using assms
  by (auto simp: dump_def Let_def log_info_def split: sum.splits if_splits)

lemma np_map_fst: "fst (np_map f h a) = \<lparr>base = length h, offset = 0, shape = shape a, strides = c_strides (shape a)\<rparr>"
  by (simp add: np_map_def new_array_def)


lemma clip_step_frame:
  "files (snd (clip_step c m w)) = files w \<and> logged (snd (clip_step c m w)) = logged w \<and>
   shape (fst (clip_step c m w)) = shape m"
  by (simp add: clip_step_def np_clip_def np_map_fst split: option.splits)

lemma abs_step_frame:
  "files (snd (abs_step ab m w)) = files w \<and> logged (snd (abs_step ab m w)) = logged w \<and>
   shape (fst (abs_step ab m w)) = shape m"
  by (simp add: abs_step_def np_abs_def np_map_fst)

lemma divide_by_frame:
  "files (snd (divide_by L s m w)) = files w \<and> logged (snd (divide_by L s m w)) = logged w \<and>
   (\<forall>m'. fst (divide_by L s m w) = Inr m' \<longrightarrow> m' = m)"
  by (simp add: divide_by_def split: sum.splits)

lemma normalize_step_frame:
  "files (snd (normalize_step L nm m w)) = files w \<and> logged (snd (normalize_step L nm m w)) = logged w \<and>
   (\<forall>m'. fst (normalize_step L nm m w) = Inr m' \<longrightarrow> m' = m)"
  by (simp add: normalize_step_def divide_by_frame split: option.splits)

lemma transform_matrix_frame:
  "files (snd (transform_matrix L c ab nm m w)) = files w \<and>
   logged (snd (transform_matrix L c ab nm m w)) = logged w \<and>
   (\<forall>m'. fst (transform_matrix L c ab nm m w) = Inr m' \<longrightarrow> shape m' = shape m)"
proof -
  obtain m1 w1 where c1: "clip_step c m w = (m1, w1)" by (cases "clip_step c m w")
  obtain m2 w2 where c2: "abs_step ab m1 w1 = (m2, w2)" by (cases "abs_step ab m1 w1")
  have t: "transform_matrix L c ab nm m w = normalize_step L nm m2 w2"
    by (simp add: transform_matrix_def c1 c2)
  from clip_step_frame [of c m w] c1
  have f1: "files w1 = files w" "logged w1 = logged w" "shape m1 = shape m" by simp_all
  from abs_step_frame [of ab m1 w1] c2
  have f2: "files w2 = files w1" "logged w2 = logged w1" "shape m2 = shape m1" by simp_all
  from normalize_step_frame [of L nm m2 w2] f1 f2 show ?thesis
    unfolding t by auto
qed



subsection \<open>The loop that writes the records\<close>






subsection \<open>Unfolding the definitions on the examples\<close>

lemmas float_defs = py_min_def np_minimum_def np_maximum_def float_of_nat_def

lemmas array_defs = ndim_def flat_index_def item_def T_def subscript_def subscript_last_def
  iter_def to_rows_def entries_def new_array_def np_map_def np_clip_def np_abs_def
  positions_def idiv_def broadcastable_def iadd_def

lemmas world_defs = exists_def log_info_def log_warning_def log_error_def loadmat_def
  with_stem_def with_suffix_def

lemmas exhibit_defs = DEFAULT_UPPER_LEFT_def DEFAULT_LOWER_RIGHT_def serde_matrix_format_def
  estimate_escape_radius_def dump_def digit_char_def format_zero_padded_def divide_by_def
  clip_step_def abs_step_def normalize_step_def transform_matrix_def add_to_average_def
  outfile_i_def write_average_def convert_matlab_def check_connected_def

lemmas example_defs = unit_row_def permutation_rows_def diagonal_rows_def example_svdvals_def
  example_norm_def
  example_linalg_def example_graph_def data_mat_def data_json_def world_with_def args_for_def
  permutation_matrix_def small_vars_def tensor_344_def
  heap_world_def matrix_1x1_def matrix_3x3_def cyclic_heap_def tensor_212_def heap_212_def
  empty_input_world_def diagonal_matrix_def matrix_0x0_def matrix_4x4_def

subsection \<open>Comparisons, and loading the container\<close>

lemma flt_le_not_lt: "flt_le a b \<Longrightarrow> \<not> flt_lt b a"
  by (cases a; cases b) simp_all

lemma flt_lt_not_le: "flt_lt a b \<Longrightarrow> \<not> flt_le b a"
  by (cases a; cases b) simp_all

lemma loadmat_frame:
  "files (snd (loadmat w p)) = files w \<and> logged (snd (loadmat w p)) = logged w"
  by (simp add: loadmat_def split: option.splits file_content.splits sum.splits prod.splits)

subsection \<open>The serialised matrix\<close>

lemma length_two: "length xs = 2 \<Longrightarrow> \<exists>a b. xs = [a, b]"
  by (cases xs; cases "tl xs") auto

lemma length_three: "length xs = 3 \<Longrightarrow> \<exists>a b c. xs = [a, b, c]"
  by (cases xs; cases "tl xs"; cases "tl (tl xs)") auto

lemma length_concat_rows: "length (concat (map (\<lambda>j. map (f j) [0..<r]) [0..<c])) = c * r"
  by (induction c) simp_all

lemma nth_concat_rows:
  "j < c \<Longrightarrow> i < r \<Longrightarrow> concat (map (\<lambda>j. map (f j) [0..<r]) [0..<c]) ! (j * r + i) = f j i"
proof (induction c)
  case 0
  then show ?case by simp
next
  case (Suc c)
  show ?case
  proof (cases "j < c")
    case True
    then have "Suc j \<le> c" by simp
    then have "Suc j * r \<le> c * r" by (rule mult_le_mono1)
    with Suc.prems(2) have "j * r + i < c * r" by simp
    with Suc True show ?thesis
      by (simp add: nth_append length_concat_rows)
  next
    case False
    with Suc.prems have "j = c" by simp
    with Suc.prems show ?thesis
      by (simp add: nth_append length_concat_rows)
  qed
qed

lemma serde_matrix_format_matrix:
  assumes "shape mat = [r, c]" and "length (strides mat) = 2"
  shows "serde_matrix_format h mat =
           JArray [JArray (concat (map (\<lambda>j. map (\<lambda>i. JArray [JFloat (item h mat [i, j]), JFloat (Finite 0)])
                                            [0..<r]) [0..<c])),
                   JInt r, JInt c]"
proof -
  from length_two [OF assms(2)] obtain s0 s1 where s: "strides mat = [s0, s1]" by blast
  show ?thesis
    by (simp add: serde_matrix_format_def iter_def T_def subscript_def item_def flat_index_def
        assms(1) s o_def add.commute add.left_commute mult.commute)
qed

subsection \<open>The escape radius in a record\<close>



subsection \<open>The arithmetic of the estimate\<close>



lemma faithful_Finite: "faithful Finite"
  by (simp add: faithful_def)







subsection \<open>The buffers under the transformations\<close>







lemma divide_by_heap_ok:
  "fst (divide_by L s m w) = Inr m' \<Longrightarrow>
   \<exists>x. heap (snd (divide_by L s m w)) = idiv (rounding L) (heap w) m x"
  by (auto simp: divide_by_def split: sum.splits)


lemma normalize_step_heap_ok:
  "nm = Some mode \<Longrightarrow> fst (normalize_step L nm m w) = Inr m' \<Longrightarrow>
   \<exists>x. heap (snd (normalize_step L nm m w)) = idiv (rounding L) (heap w) m x"
  using divide_by_heap_ok [of L _ m w m']
  by (simp add: normalize_step_def split: if_splits)


subsection \<open>The division in place\<close>

lemma length_fold_update:
  "length (fold (\<lambda>p b. b[f p := g (b ! f p)]) ps buf) = length buf"
  by (induction ps arbitrary: buf) simp_all








subsection \<open>An unrecognised mode, and the loop that reads\<close>

lemma normalize_step_unknown:
  "mode \<notin> {''1'', ''2'', ''inf'', ''fro'', ''nuc'', ''max''} \<Longrightarrow>
   normalize_step L (Some mode) m w = (Inl (ValueError ''Unknown norm type''), w)"
  by (simp add: normalize_step_def)

lemma transform_matrix_unknown:
  assumes "mode \<notin> {''1'', ''2'', ''inf'', ''fro'', ''nuc'', ''max''}"
  shows "fst (transform_matrix L c ab (Some mode) m w) = Inl (ValueError ''Unknown norm type'')"
proof -
  obtain m1 w1 where c1: "clip_step c m w = (m1, w1)" by (cases "clip_step c m w")
  obtain m2 w2 where c2: "abs_step ab m1 w1 = (m2, w2)" by (cases "abs_step ab m1 w1")
  show ?thesis
    by (simp add: transform_matrix_def c1 c2 normalize_step_unknown [OF assms])
qed

lemma write_matrices_unknown:
  assumes "normalize_mode args = Some mode"
    and "mode \<notin> {''1'', ''2'', ''inf'', ''fro'', ''nuc'', ''max''}"
  shows "fst (write_matrices L args out ul lr width (mat # mats) i avg ret w) =
           Inl (ValueError ''Unknown norm type'') \<and>
         files (snd (write_matrices L args out ul lr width (mat # mats) i avg ret w)) = files w \<and>
         logged (snd (write_matrices L args out ul lr width (mat # mats) i avg ret w)) = logged w"
proof -
  let ?t = "transform_matrix L (clip args) (absolute args) (normalize_mode args) mat w"
  obtain e w1 where t: "?t = (e, w1)" by (cases ?t)
  from transform_matrix_unknown [OF assms(2), of L "clip args" "absolute args" mat w] t assms(1)
  have e: "e = Inl (ValueError ''Unknown norm type'')" by simp
  from transform_matrix_frame [of L "clip args" "absolute args" "normalize_mode args" mat w] t
  have "files w1 = files w" "logged w1 = logged w" by simp_all
  with t e show ?thesis by simp
qed

lemma read_matrices_files: "files (snd (read_matrices tr result names ret ms w)) = files w"
  by (induction names arbitrary: ret ms w)
     (simp_all add: log_info_def log_error_def split: option.splits pyobj.splits)

lemma read_matrices_refusals:
  "refusals_logged (snd (read_matrices tr result names ret ms w)) = refusals_logged w"
  by (induction names arbitrary: ret ms w)
     (simp_all add: refusals_logged_def log_info_def log_error_def split: option.splits pyobj.splits)

lemma read_matrices_logged:
  "read_matrices tr result names ret ms w = (Inr (r, ms'), w') \<Longrightarrow>
   (\<exists>l. logged w' = logged w @ l \<and> (ms' \<noteq> ms \<longrightarrow> (INFO, ''Read a matrix'') \<in> set l)) \<and>
   (ret = 0 \<or> ret = 1 \<longrightarrow> r = 0 \<or> r = 1)"
proof (induction names arbitrary: ret ms w)
  case Nil
  then show ?case by auto
next
  case (Cons name names)
  show ?case
  proof (cases "result name")
    case None
    with Cons.prems show ?thesis by simp
  next
    case (Some obj)
    show ?thesis
    proof (cases obj)
      case (Other tn)
      with Some Cons.prems
      have "read_matrices tr result names 1 ms (log_error w ''Object is not an ndarray'') =
              (Inr (r, ms'), w')" by simp
      from Cons.IH [OF this] show ?thesis by (auto simp: log_error_def)
    next
      case (Array mat)
      consider "ndim mat = 2" | "ndim mat = 3" | "ndim mat \<noteq> 2 \<and> ndim mat \<noteq> 3" by blast
      then show ?thesis
      proof cases
        case 1
        with Some Array Cons.prems
        have "read_matrices tr result names ret (ms @ [if tr then T mat else mat])
                (log_info w ''Read a matrix'') = (Inr (r, ms'), w')" by simp
        from Cons.IH [OF this] show ?thesis by (auto simp: log_info_def)
      next
        case 2
        with Some Array Cons.prems
        have "read_matrices tr result names ret
                (ms @ (if tr then map (subscript_last mat) [0..<last (shape mat)]
                       else map (subscript mat) [0..<hd (shape mat)]))
                (log_info w ''Read a matrix'') = (Inr (r, ms'), w')" by simp
        from Cons.IH [OF this] show ?thesis by (auto simp: log_info_def)
      next
        case 3
        with Some Array Cons.prems
        have "read_matrices tr result names 1 ms (log_error w ''Object has unsupported shape'') =
                (Inr (r, ms'), w')" by simp
        from Cons.IH [OF this] show ?thesis by (auto simp: log_error_def)
      qed
    qed
  qed
qed

lemma convert_matlab_write_stage:
  assumes "passes_validation args w" and "extracted args w \<noteq> []"
  shows "\<exists>ret w2. files w2 = files w \<and> (ret = 0 \<or> ret = 1) \<and>
     ret = extraction_status args w \<and> refusals_logged w2 = refusals_logged w \<and>
     (INFO, ''Read a matrix'') \<in> set (logged w2) \<and>
     convert_matlab L args w =
       (case write_matrices L args (out_path args) (viewport_upper_left args)
               (viewport_lower_right args) (suffix_width args w) (extracted args w) 0 None ret w2 of
          (Inl e, w3) \<Rightarrow> (Inl e, w3)
        | (Inr (ret', mat_avg), w3) \<Rightarrow>
            if include_average args then
              write_average L args (out_path args) (viewport_upper_left args)
                (viewport_lower_right args) (length (extracted args w)) mat_avg ret' w3
            else (Inr ret', w3))"
proof -
  from assms(1) obtain c where c: "max_escape_radius args = Some c" "\<not> flt_le c (Finite 0)"
    by (auto simp: passes_validation_def split: option.splits)
  obtain res w1 where l: "loadmat w (filename args) = (res, w1)"
    by (cases "loadmat w (filename args)")
  with assms(2) obtain result where res: "res = Inr result"
    by (cases res) (auto simp: extracted_def)
  obtain rr w2 where rd:
    "read_matrices (transpose_flag args) result (requested_names args) 0 [] w1 = (rr, w2)"
    by (cases "read_matrices (transpose_flag args) result (requested_names args) 0 [] w1")
  with assms(2) l res obtain ret where rr: "rr = Inr (ret, extracted args w)"
    by (cases rr) (auto simp: extracted_def)
  from loadmat_frame [of w "filename args"] l have f1: "files w1 = files w" by simp
  from loadmat_frame [of w "filename args"] l
    read_matrices_refusals [of "transpose_flag args" result "requested_names args" 0 "[]" w1] rd
  have rl: "refusals_logged w2 = refusals_logged w" by (simp add: refusals_logged_def)
  from read_matrices_files [of "transpose_flag args" result "requested_names args" 0 "[]" w1] rd
  have f2: "files w2 = files w1" by simp
  from read_matrices_logged [of "transpose_flag args" result "requested_names args" 0 "[]" w1
      ret "extracted args w" w2] rd rr assms(2)
  have lg: "(INFO, ''Read a matrix'') \<in> set (logged w2)" and r01: "ret = 0 \<or> ret = 1" by auto
  have es: "ret = extraction_status args w"
    using l res rd rr by (simp add: extraction_status_def)
  have "convert_matlab L args w =
       (case write_matrices L args (out_path args) (viewport_upper_left args)
               (viewport_lower_right args) (suffix_width args w) (extracted args w) 0 None ret w2 of
          (Inl e, w3) \<Rightarrow> (Inl e, w3)
        | (Inr (ret', mat_avg), w3) \<Rightarrow>
            if include_average args then
              write_average L args (out_path args) (viewport_upper_left args)
                (viewport_lower_right args) (length (extracted args w)) mat_avg ret' w3
            else (Inr ret', w3))"
    using assms c l res rd rr
    by (simp add: convert_matlab_def passes_validation_def viewport_upper_left_def
        viewport_lower_right_def out_path_def suffix_width_def requested_names_def Let_def
        split: prod.splits sum.splits)
  with f1 f2 lg r01 es rl show ?thesis by auto
qed

lemma loadmat_error: "fst (loadmat w p) = Inl e \<Longrightarrow> e = MatReadError"
proof -
  have lv: "load_vars kvs d h = Inl e \<Longrightarrow> e = MatReadError" for kvs d h
    by (induction kvs d h rule: load_vars.induct) (auto split: if_splits)
  assume "fst (loadmat w p) = Inl e"
  then show ?thesis
    using lv by (auto simp: loadmat_def split: option.splits file_content.splits sum.splits prod.splits)
qed

lemma read_matrices_error:
  "fst (read_matrices tr result names ret ms w) = Inl e \<Longrightarrow> \<exists>name. e = KeyError name"
  by (induction names arbitrary: ret ms w) (auto split: option.splits pyobj.splits if_splits)

lemma convert_matlab_unknown:
  assumes "normalize_mode args = Some mode"
    and "mode \<notin> {''1'', ''2'', ''inf'', ''fro'', ''nuc'', ''max''}"
  shows "files (snd (convert_matlab L args w)) = files w"
    and "extracted args w = [] \<Longrightarrow>
           fst (convert_matlab L args w) \<noteq> Inl (ValueError ''Unknown norm type'')"
proof -
  let ?ul = "case upper_left args of None \<Rightarrow> DEFAULT_UPPER_LEFT | Some p \<Rightarrow> p"
  let ?lr = "case lower_right args of None \<Rightarrow> DEFAULT_LOWER_RIGHT | Some p \<Rightarrow> p"
  let ?names = "case mat_variable_names args of None \<Rightarrow> [] | Some ns \<Rightarrow> ns"
  let ?out = "case outfile args of None \<Rightarrow> with_suffix (filename args) ''.json'' | Some p \<Rightarrow> p"
  let ?V = "Inl (ValueError ''Unknown norm type'') :: error + int"
  have both: "files (snd (convert_matlab L args w)) = files w \<and>
    (extracted args w = [] \<longrightarrow> fst (convert_matlab L args w) \<noteq> ?V)"
  proof (cases "exists w (filename args) \<and> \<not> flt_lt (fst ?lr) (fst ?ul) \<and>
      \<not> flt_lt (snd ?ul) (snd ?lr)")
    case False
    then show ?thesis
      by (auto simp: convert_matlab_def Let_def log_error_def)
  next
    case pre: True
    show ?thesis
    proof (cases "max_escape_radius args")
      case None
      with pre show ?thesis by (simp add: convert_matlab_def Let_def)
    next
      case (Some c)
      show ?thesis
      proof (cases "flt_le c (Finite 0)")
        case True
        with pre Some show ?thesis by (simp add: convert_matlab_def Let_def log_error_def)
      next
        case pos: False
        obtain res w1 where l: "loadmat w (filename args) = (res, w1)"
          by (cases "loadmat w (filename args)")
        from loadmat_frame [of w "filename args"] l have f1: "files w1 = files w" by simp
        show ?thesis
        proof (cases res)
          case (Inl e)
          with loadmat_error [of w "filename args" e] l have "e = MatReadError" by simp
          with pre Some pos l Inl f1 show ?thesis by (simp add: convert_matlab_def Let_def)
        next
          case (Inr result)
          obtain rr w2 where rd:
            "read_matrices (transpose_flag args) result ?names 0 [] w1 = (rr, w2)"
            by (cases "read_matrices (transpose_flag args) result ?names 0 [] w1")
          from read_matrices_files [of "transpose_flag args" result ?names 0 "[]" w1] rd f1
          have f2: "files w2 = files w" by simp
          show ?thesis
          proof (cases rr)
            case e: (Inl e)
            with read_matrices_error [of "transpose_flag args" result ?names 0 "[]" w1 e] rd
            obtain name where "e = KeyError name" by auto
            with pre Some pos l Inr rd e f2 show ?thesis by (simp add: convert_matlab_def Let_def)
          next
            case r: (Inr pr)
            obtain ret ms where pr: "pr = (ret, ms)" by (cases pr)
            have ex: "extracted args w = ms"
              using l Inr rd r pr by (simp add: extracted_def requested_names_def)
            show ?thesis
            proof (cases ms)
              case Nil
              with pre Some pos l Inr rd r pr f2 show ?thesis
                by (simp add: convert_matlab_def Let_def log_warning_def)
            next
              case (Cons m ms')
              from write_matrices_unknown [OF assms, of L ?out ?ul ?lr
                  "length (str_nat (length ms))" m ms' 0 None ret w2]
              have "fst (write_matrices L args ?out ?ul ?lr (length (str_nat (length ms))) ms
                      0 None ret w2) = Inl (ValueError ''Unknown norm type'')"
                and "files (snd (write_matrices L args ?out ?ul ?lr (length (str_nat (length ms))) ms
                      0 None ret w2)) = files w2"
                unfolding Cons by simp_all
              then show ?thesis
                using pre Some pos l Inr rd r pr f2 ex Cons
                by (auto simp: convert_matlab_def Let_def split: prod.splits sum.splits)
            qed
          qed
        qed
      qed
    qed
  qed
  from both show "files (snd (convert_matlab L args w)) = files w" by blast
  from both show "extracted args w = [] \<Longrightarrow>
           fst (convert_matlab L args w) \<noteq> Inl (ValueError ''Unknown norm type'')" by blast
qed

subsection \<open>A run that passes validation and returns\<close>






subsection \<open>The runs on the tensor of shape (3, 4, 4)\<close>









section \<open>The claims\<close>

subsection \<open>C1: the axis that indexes the matrices of a tensor\<close>

text \<open>
  Claim C1 says that the last axis of a rank-3 tensor indexes the matrices when transpose
  is not requested, and the first axis when it is. The code does the opposite, as its
  help text says (a tensor of shape (7, 32, 32) gives 7 matrices): for the tensor of
  shape (2, 1, 2) with the entries 1 to 4, a run without transpose extracts the two
  matrices (1 2) and (3 4) along the first axis, not the columns (1 3) and (2 4) along the
  last axis, which are what a run with transpose extracts.
\<close>

theorem C1_counterexample:
  "map (to_rows (heap (snd (loadmat (world_with small_vars) data_mat))))
     (extracted (args_for (Some [''t''])) (world_with small_vars)) =
     [[[Finite 1, Finite 2]], [[Finite 3, Finite 4]]] \<and>
   map (to_rows (heap (snd (loadmat (world_with small_vars) data_mat))))
     (extracted (args_for (Some [''t''])) (world_with small_vars)) \<noteq>
     [[[Finite 1], [Finite 3]], [[Finite 2], [Finite 4]]] \<and>
   map (to_rows (heap (snd (loadmat (world_with small_vars) data_mat))))
     (extracted ((args_for (Some [''t'']))\<lparr>transpose_flag := True\<rparr>) (world_with small_vars)) =
     [[[Finite 1], [Finite 3]], [[Finite 2], [Finite 4]]]"
  by (simp add: extracted_def requested_names_def world_defs example_defs array_defs upt_rec)

text \<open>
  Claim C1 as amended: for a rank-3 tensor the loop appends, in index order, the slices
  \<^verbatim>\<open>mat[i]\<close> along the first axis when transpose is not requested and the slices
  \<^verbatim>\<open>mat[..., i]\<close> along the last axis when it is. The entry (j, k) of
  \<^verbatim>\<open>mat[i]\<close> is the entry (i, j, k) of the tensor, and the entry (j, k) of
  \<^verbatim>\<open>mat[..., i]\<close> is its entry (j, k, i).
\<close>

theorem C1_rank3_slices:
  assumes "result name = Some (Array mat)" and "ndim mat = 3" and "length (strides mat) = 3"
  shows "read_matrices tr result (name # names) ret matrices w =
           read_matrices tr result names ret
             (matrices @ (if tr then map (subscript_last mat) [0..<shape mat ! 2]
                          else map (subscript mat) [0..<shape mat ! 0]))
             (log_info w ''Read a matrix'') \<and>
         (\<forall>i j k. shape (subscript mat i) = [shape mat ! 1, shape mat ! 2] \<and>
                  item h (subscript mat i) [j, k] = item h mat [i, j, k]) \<and>
         (\<forall>i j k. shape (subscript_last mat i) = [shape mat ! 0, shape mat ! 1] \<and>
                  item h (subscript_last mat i) [j, k] = item h mat [j, k, i])"
proof -
  from assms(2) have "length (shape mat) = 3" by (simp add: ndim_def)
  from length_three [OF this] obtain n0 n1 n2 where sh: "shape mat = [n0, n1, n2]" by blast
  from length_three [OF assms(3)] obtain s0 s1 s2 where st: "strides mat = [s0, s1, s2]" by blast
  have "read_matrices tr result (name # names) ret matrices w =
           read_matrices tr result names ret
             (matrices @ (if tr then map (subscript_last mat) [0..<shape mat ! 2]
                          else map (subscript mat) [0..<shape mat ! 0]))
             (log_info w ''Read a matrix'')"
    using assms(1,2) by (simp add: sh)
  moreover have "\<forall>i j k. shape (subscript mat i) = [shape mat ! 1, shape mat ! 2] \<and>
                  item h (subscript mat i) [j, k] = item h mat [i, j, k]"
    by (simp add: subscript_def item_def flat_index_def sh st add.assoc)
  moreover have "\<forall>i j k. shape (subscript_last mat i) = [shape mat ! 0, shape mat ! 1] \<and>
                  item h (subscript_last mat i) [j, k] = item h mat [j, k, i]"
    by (simp add: subscript_last_def item_def flat_index_def sh st add.commute add.left_commute)
  ultimately show ?thesis by blast
qed

theorem C1_witness:
  "ndim tensor_212 = 3 \<and> length (strides tensor_212) = 3 \<and>
   read_matrices False [''t'' \<mapsto> Array tensor_212] [''t''] 0 [] (heap_world heap_212) =
     (Inr (0, [subscript tensor_212 0, subscript tensor_212 1]),
      log_info (heap_world heap_212) ''Read a matrix'') \<and>
   read_matrices True [''t'' \<mapsto> Array tensor_212] [''t''] 0 [] (heap_world heap_212) =
     (Inr (0, [subscript_last tensor_212 0, subscript_last tensor_212 1]),
      log_info (heap_world heap_212) ''Read a matrix'') \<and>
   (\<forall>i j k. shape (subscript tensor_212 i) = [1, 2] \<and>
            item heap_212 (subscript tensor_212 i) [j, k] = item heap_212 tensor_212 [i, j, k]) \<and>
   (\<forall>i j k. shape (subscript_last tensor_212 i) = [2, 1] \<and>
            item heap_212 (subscript_last tensor_212 i) [j, k] = item heap_212 tensor_212 [j, k, i])"
proof -
  have d: "[''t'' \<mapsto> Array tensor_212] ''t'' = Some (Array tensor_212)" by simp
  have n: "ndim tensor_212 = 3" "length (strides tensor_212) = 3"
    by (simp_all add: ndim_def tensor_212_def)
  have s: "shape tensor_212 = [2, 1, 2]" by (simp add: tensor_212_def)
  note inst = C1_rank3_slices [where result = "[''t'' \<mapsto> Array tensor_212]" and name = "''t''"
      and mat = tensor_212 and names = "[]" and ret = 0 and matrices = "[]"
      and w = "heap_world heap_212" and h = heap_212, OF d n]
  from inst [of False] inst [of True] n
  show ?thesis
    by (simp add: s upt_rec)
qed

subsection \<open>C2: a requested name that the container lacks\<close>

text \<open>
  Claim C2 says that a requested name which the container lacks is recorded as a
  non-fatal error, that the remaining names are still read and that no exception escapes.
  The loops record such an error for a value that is not an array and for an array of an
  unsupported rank, but they look the name up with \<^verbatim>\<open>result[name]\<close>: on the
  file of the examples, a run that asks for the names \<^verbatim>\<open>missing\<close> and
  \<^verbatim>\<open>m\<close> ends with the exception \<^verbatim>\<open>KeyError\<close> for the first name, the
  second name is never read and no file is written; the connectivity checker ends in the
  same way.
\<close>

theorem C2_missing_name_raises:
  "fst (convert_matlab example_linalg (args_for (Some [''missing'', ''m''])) (world_with small_vars)) =
     Inl (KeyError ''missing'') \<and>
   files (snd (convert_matlab example_linalg (args_for (Some [''missing'', ''m''])) (world_with small_vars))) =
     files (world_with small_vars) \<and>
   fst (check_connected example_graph data_mat (Some [''missing'', ''t'']) None (world_with small_vars)) =
     Inl (KeyError ''missing'')"
  by (simp add: exhibit_defs world_defs example_defs array_defs)

subsection \<open>C3: a run without a ceiling\<close>

text \<open>
  Claim C3 says that a run with no \<^verbatim>\<open>max_escape_radius\<close> configured completes
  and emits the uncapped estimate. \<^verbatim>\<open>dump\<close> provides for it (no ceiling is an
  infinite ceiling), but \<^verbatim>\<open>convert_matlab\<close> compares the ceiling with 0.0 before
  anything is read, and for \<^verbatim>\<open>None\<close> that comparison is a
  \<^verbatim>\<open>TypeError\<close>: the run on the matrix \<^verbatim>\<open>m\<close> of the examples with no
  ceiling ends with this exception and writes no file.
\<close>

theorem C3_no_ceiling_raises:
  "fst (convert_matlab example_linalg ((args_for (Some [''m'']))\<lparr>max_escape_radius := None\<rparr>)
         (world_with small_vars)) = Inl TypeError \<and>
   files (snd (convert_matlab example_linalg ((args_for (Some [''m'']))\<lparr>max_escape_radius := None\<rparr>)
         (world_with small_vars))) = files (world_with small_vars)"
  by (simp add: exhibit_defs world_defs example_defs array_defs)

subsection \<open>C4: the layout of the record\<close>

text \<open>
  Claim C4: the record that \<^verbatim>\<open>dump\<close> writes for a matrix with r rows and c
  columns has exactly the keys \<^verbatim>\<open>mat\<close>, \<^verbatim>\<open>escape_radius\<close>,
  \<^verbatim>\<open>upper_left\<close> and \<^verbatim>\<open>lower_right\<close>, in this order; \<^verbatim>\<open>mat\<close> is the
  list of a list of r * c pairs, r and c, and the pair at position j * r + i (column-major
  order) is the entry in row i and column j with the imaginary part 0.0.
\<close>

theorem C4_record_layout:
  assumes "shape mat = [r, c]" and "length (strides mat) = 2"
    and "fst (dump L p mat ul lr mer ov w) = Inr 0"
  shows "\<exists>pairs e.
           files (snd (dump L p mat ul lr mer ov w)) p = Some (JsonFile (JObject
             [(''mat'', JArray [JArray pairs, JInt r, JInt c]),
              (''escape_radius'', JFloat e),
              (''upper_left'', JArray [JFloat (fst ul), JFloat (snd ul)]),
              (''lower_right'', JArray [JFloat (fst lr), JFloat (snd lr)])])) \<and>
           length pairs = r * c \<and>
           (\<forall>i j. i < r \<and> j < c \<longrightarrow>
              pairs ! (j * r + i) = JArray [JFloat (item (heap w) mat [i, j]), JFloat (Finite 0)])"
proof -
  let ?f = "\<lambda>j i. JArray [JFloat (item (heap w) mat [i, j]), JFloat (Finite 0)]"
  let ?pairs = "concat (map (\<lambda>j. map (?f j) [0..<r]) [0..<c])"
  from dump_status [OF assms(3)] have "ov \<or> \<not> exists w p"
    by (auto split: if_splits)
  from dump_written [OF assms(3) this] obtain e where
    "files (snd (dump L p mat ul lr mer ov w)) p = Some (JsonFile (JObject
             [(''mat'', serde_matrix_format (heap w) mat),
              (''escape_radius'', JFloat (py_min e (case mer of None \<Rightarrow> PInf | Some r \<Rightarrow> r))),
              (''upper_left'', JArray [JFloat (fst ul), JFloat (snd ul)]),
              (''lower_right'', JArray [JFloat (fst lr), JFloat (snd lr)])]))" by blast
  then have "files (snd (dump L p mat ul lr mer ov w)) p = Some (JsonFile (JObject
             [(''mat'', JArray [JArray ?pairs, JInt r, JInt c]),
              (''escape_radius'', JFloat (py_min e (case mer of None \<Rightarrow> PInf | Some r \<Rightarrow> r))),
              (''upper_left'', JArray [JFloat (fst ul), JFloat (snd ul)]),
              (''lower_right'', JArray [JFloat (fst lr), JFloat (snd lr)])]))"
    by (simp add: serde_matrix_format_matrix [OF assms(1,2)])
  moreover have "length ?pairs = r * c"
    by (simp add: length_concat_rows mult.commute)
  moreover have "\<forall>i j. i < r \<and> j < c \<longrightarrow> ?pairs ! (j * r + i) = ?f j i"
    using nth_concat_rows [of _ c _ r ?f] by blast
  ultimately show ?thesis by blast
qed
theorem C4_witness:
  "shape matrix_3x3 = [3, 3] \<and> length (strides matrix_3x3) = 2 \<and>
   fst (dump example_linalg (data_json ''0'') matrix_3x3 DEFAULT_UPPER_LEFT DEFAULT_LOWER_RIGHT
          None False (heap_world cyclic_heap)) = Inr 0 \<and>
   to_rows cyclic_heap matrix_3x3 =
     [[Finite 0, Finite 1, Finite 0], [Finite 0, Finite 0, Finite 1], [Finite 1, Finite 0, Finite 0]] \<and>
   (\<exists>pairs e.
      files (snd (dump example_linalg (data_json ''0'') matrix_3x3 DEFAULT_UPPER_LEFT
                    DEFAULT_LOWER_RIGHT None False (heap_world cyclic_heap))) (data_json ''0'') =
        Some (JsonFile (JObject
          [(''mat'', JArray [JArray pairs, JInt 3, JInt 3]),
           (''escape_radius'', JFloat e),
           (''upper_left'', JArray [JFloat (fst DEFAULT_UPPER_LEFT), JFloat (snd DEFAULT_UPPER_LEFT)]),
           (''lower_right'', JArray [JFloat (fst DEFAULT_LOWER_RIGHT), JFloat (snd DEFAULT_LOWER_RIGHT)])])) \<and>
      length pairs = 3 * 3 \<and>
      (\<forall>i j. i < 3 \<and> j < 3 \<longrightarrow>
         pairs ! (j * 3 + i) =
           JArray [JFloat (item (heap (heap_world cyclic_heap)) matrix_3x3 [i, j]), JFloat (Finite 0)])) \<and>
   files (snd (dump example_linalg (data_json ''0'') matrix_3x3 DEFAULT_UPPER_LEFT
                 DEFAULT_LOWER_RIGHT None False (heap_world cyclic_heap))) (data_json ''0'') =
     Some (JsonFile (JObject
       [(''mat'', JArray [JArray (map (\<lambda>x. JArray [JFloat (Finite x), JFloat (Finite 0)])
                                      [0, 0, 1, 1, 0, 0, 0, 1, 0]), JInt 3, JInt 3]),
        (''escape_radius'', JFloat (Finite (2 * sqrt 3))),
        (''upper_left'', JArray [JFloat (Finite (- 10.25)), JFloat (Finite 4.25)]),
        (''lower_right'', JArray [JFloat (Finite 7.5), JFloat (Finite (- 7.5))])]))"
proof -
  let ?d = "dump example_linalg (data_json ''0'') matrix_3x3 DEFAULT_UPPER_LEFT DEFAULT_LOWER_RIGHT
          None False (heap_world cyclic_heap)"
  have s: "shape matrix_3x3 = [3, 3]" "length (strides matrix_3x3) = 2"
    by (simp_all add: matrix_3x3_def)
  have rows: "to_rows cyclic_heap matrix_3x3 =
     [[Finite 0, Finite 1, Finite 0], [Finite 0, Finite 0, Finite 1], [Finite 1, Finite 0, Finite 0]]"
    by (simp add: array_defs example_defs upt_rec)
  have ok: "fst ?d = Inr 0"
    by (simp add: dump_def estimate_escape_radius_def rows float_defs world_defs
        heap_world_def example_linalg_def example_svdvals_def permutation_rows_def unit_row_def Let_def)
  note layout = C4_record_layout [OF s ok]
  have content: "files (snd ?d) (data_json ''0'') =
     Some (JsonFile (JObject
       [(''mat'', JArray [JArray (map (\<lambda>x. JArray [JFloat (Finite x), JFloat (Finite 0)])
                                      [0, 0, 1, 1, 0, 0, 0, 1, 0]), JInt 3, JInt 3]),
        (''escape_radius'', JFloat (Finite (2 * sqrt 3))),
        (''upper_left'', JArray [JFloat (Finite (- 10.25)), JFloat (Finite 4.25)]),
        (''lower_right'', JArray [JFloat (Finite 7.5), JFloat (Finite (- 7.5))])]))"
    by (simp add: exhibit_defs world_defs example_defs array_defs float_defs upt_rec Let_def)
  from s ok rows layout content show ?thesis
    by blast
qed

subsection \<open>C5: the names of the output files\<close>




subsection \<open>C6: the transformations and their source\<close>




subsection \<open>C7: an unrecognised normalisation mode\<close>

text \<open>
  Claim C7 says that every run configured with a normalisation mode outside 1, 2, inf,
  fro, nuc and max aborts with a fatal error before any input or output. The mode is
  looked at only inside the loop that writes the matrices: with the mode
  \<^verbatim>\<open>bogus\<close>, a run that extracts no matrix returns 0, and a run on the matrix
  \<^verbatim>\<open>m\<close> raises only after the file has been loaded and the matrix has been read
  and logged.
\<close>

theorem C7_counterexample:
  "fst (convert_matlab example_linalg ((args_for None)\<lparr>normalize_mode := Some ''bogus''\<rparr>)
          (world_with small_vars)) = Inr 0 \<and>
   fst (convert_matlab example_linalg ((args_for (Some [''m'']))\<lparr>normalize_mode := Some ''bogus''\<rparr>)
          (world_with small_vars)) = Inl (ValueError ''Unknown norm type'') \<and>
   logged (snd (convert_matlab example_linalg
          ((args_for (Some [''m'']))\<lparr>normalize_mode := Some ''bogus''\<rparr>) (world_with small_vars))) =
     [(INFO, ''Read a matrix'')] \<and>
   heap (snd (convert_matlab example_linalg
          ((args_for (Some [''m'']))\<lparr>normalize_mode := Some ''bogus''\<rparr>) (world_with small_vars))) =
     [[Finite 2], [Finite 1, Finite 2, Finite 3, Finite 4]]"
proof -
  have "fst (convert_matlab example_linalg ((args_for None)\<lparr>normalize_mode := Some ''bogus''\<rparr>)
          (world_with small_vars)) = Inr 0"
    by (simp add: exhibit_defs world_defs example_defs array_defs)
  moreover have "convert_matlab example_linalg
      ((args_for (Some [''m'']))\<lparr>normalize_mode := Some ''bogus''\<rparr>) (world_with small_vars) =
      (Inl (ValueError ''Unknown norm type''),
       \<lparr>files = [data_mat \<mapsto> MatFile small_vars], logged = [(INFO, ''Read a matrix'')],
        heap = [[Finite 2], [Finite 1, Finite 2, Finite 3, Finite 4]]\<rparr>)"
    by (simp add: exhibit_defs world_defs example_defs array_defs str_nat.simps)
  ultimately show ?thesis by simp
qed

text \<open>
  Claim C7 as amended: a run configured with a normalisation mode outside 1, 2, inf, fro,
  nuc and max writes no file, whatever else happens; if it passes the validation of its
  arguments and extracts at least one matrix, it aborts with the error for the unknown
  norm type at the first matrix, after the container has been read; if it extracts no
  matrix, it does not raise that error.
\<close>

theorem C7_unknown_mode:
  assumes "normalize_mode args = Some mode"
    and "mode \<notin> {''1'', ''2'', ''inf'', ''fro'', ''nuc'', ''max''}"
  shows "files (snd (convert_matlab L args w)) = files w \<and>
     (passes_validation args w \<and> extracted args w \<noteq> [] \<longrightarrow>
        fst (convert_matlab L args w) = Inl (ValueError ''Unknown norm type'') \<and>
        (INFO, ''Read a matrix'') \<in> set (logged (snd (convert_matlab L args w)))) \<and>
     (extracted args w = [] \<longrightarrow>
        fst (convert_matlab L args w) \<noteq> Inl (ValueError ''Unknown norm type''))"
proof -
  have "fst (convert_matlab L args w) = Inl (ValueError ''Unknown norm type'') \<and>
        (INFO, ''Read a matrix'') \<in> set (logged (snd (convert_matlab L args w)))"
    if v: "passes_validation args w" and ne: "extracted args w \<noteq> []"
  proof -
    from convert_matlab_write_stage [OF v ne, of L] obtain ret w2 where
      lg: "(INFO, ''Read a matrix'') \<in> set (logged w2)" and
      cm: "convert_matlab L args w =
       (case write_matrices L args (out_path args) (viewport_upper_left args)
               (viewport_lower_right args) (suffix_width args w) (extracted args w) 0 None ret w2 of
          (Inl e, w3) \<Rightarrow> (Inl e, w3)
        | (Inr (ret', mat_avg), w3) \<Rightarrow>
            if include_average args then
              write_average L args (out_path args) (viewport_upper_left args)
                (viewport_lower_right args) (length (extracted args w)) mat_avg ret' w3
            else (Inr ret', w3))" by blast
    from ne obtain m ms where ms: "extracted args w = m # ms" by (cases "extracted args w") auto
    let ?wm = "write_matrices L args (out_path args) (viewport_upper_left args)
               (viewport_lower_right args) (suffix_width args w) (m # ms) 0 None ret w2"
    from write_matrices_unknown [OF assms, of L "out_path args" "viewport_upper_left args"
        "viewport_lower_right args" "suffix_width args w" m ms 0 None ret w2]
    have "fst ?wm = Inl (ValueError ''Unknown norm type'')" "logged (snd ?wm) = logged w2"
      by simp_all
    then obtain w3 where wm: "?wm = (Inl (ValueError ''Unknown norm type''), w3)"
      and l3: "logged w3 = logged w2"
      by (cases ?wm) auto
    have "convert_matlab L args w = (Inl (ValueError ''Unknown norm type''), w3)"
      unfolding cm ms wm by simp
    with lg l3 show ?thesis by simp
  qed
  with convert_matlab_unknown [OF assms, where L = L and w = w] show ?thesis by blast
qed

theorem C7_witness:
  "files (snd (convert_matlab example_linalg
     ((args_for (Some [''m'']))\<lparr>normalize_mode := Some ''bogus''\<rparr>) (world_with small_vars))) =
     files (world_with small_vars) \<and>
   passes_validation ((args_for (Some [''m'']))\<lparr>normalize_mode := Some ''bogus''\<rparr>)
     (world_with small_vars) \<and>
   length (extracted ((args_for (Some [''m'']))\<lparr>normalize_mode := Some ''bogus''\<rparr>)
     (world_with small_vars)) = 1 \<and>
   fst (convert_matlab example_linalg
     ((args_for (Some [''m'']))\<lparr>normalize_mode := Some ''bogus''\<rparr>) (world_with small_vars)) =
     Inl (ValueError ''Unknown norm type'') \<and>
   (INFO, ''Read a matrix'') \<in> set (logged (snd (convert_matlab example_linalg
     ((args_for (Some [''m'']))\<lparr>normalize_mode := Some ''bogus''\<rparr>) (world_with small_vars))))"
proof -
  let ?a = "(args_for (Some [''m'']))\<lparr>normalize_mode := Some ''bogus''\<rparr>"
  have m: "normalize_mode ?a = Some ''bogus''"
    "''bogus'' \<notin> {''1'', ''2'', ''inf'', ''fro'', ''nuc'', ''max''}"
    by (simp_all add: args_for_def)
  have v: "passes_validation ?a (world_with small_vars)"
    by (simp add: passes_validation_def viewport_upper_left_def viewport_lower_right_def
        exists_def args_for_def world_with_def DEFAULT_UPPER_LEFT_def DEFAULT_LOWER_RIGHT_def)
  have e: "length (extracted ?a (world_with small_vars)) = 1"
    by (simp add: extracted_def requested_names_def world_defs example_defs array_defs)
  then have ne: "extracted ?a (world_with small_vars) \<noteq> []" by auto
  from C7_unknown_mode [OF m, of example_linalg "world_with small_vars"] v e ne
  show ?thesis by blast
qed

subsection \<open>C8: the estimate of the escape radius\<close>




subsection \<open>C9: a target that exists already\<close>




subsection \<open>C10: a run with no variable names\<close>

text \<open>
  Claim C10 says that every run on an existing input file with a valid bounding box, a
  positive ceiling and no variable names emits a warning and returns 0. The file is
  loaded before the names are looked at, and \<^verbatim>\<open>loadmat\<close> raises on an existing
  file that it cannot read, an empty one for instance: the run ends with that exception,
  returns no status and logs nothing, whether the list of names is omitted or empty.
\<close>

theorem C10_counterexample:
  "exists empty_input_world (filename (args_for None)) \<and>
   flt_le (fst (viewport_upper_left (args_for None))) (fst (viewport_lower_right (args_for None))) \<and>
   flt_le (snd (viewport_lower_right (args_for None))) (snd (viewport_upper_left (args_for None))) \<and>
   max_escape_radius (args_for None) = Some (Finite 100) \<and> flt_lt (Finite 0) (Finite 100) \<and>
   mat_variable_names (args_for None) = None \<and>
   convert_matlab example_linalg (args_for None) empty_input_world =
     (Inl MatReadError, empty_input_world) \<and>
   convert_matlab example_linalg (args_for (Some [])) empty_input_world =
     (Inl MatReadError, empty_input_world) \<and>
   logged empty_input_world = []"
proof -
  have "exists empty_input_world (filename (args_for None))"
    by (simp add: exists_def empty_input_world_def args_for_def)
  moreover have "flt_le (fst (viewport_upper_left (args_for None)))
      (fst (viewport_lower_right (args_for None)))"
    by (simp add: args_for_def viewport_upper_left_def viewport_lower_right_def
        DEFAULT_UPPER_LEFT_def DEFAULT_LOWER_RIGHT_def)
  moreover have "flt_le (snd (viewport_lower_right (args_for None)))
      (snd (viewport_upper_left (args_for None)))"
    by (simp add: args_for_def viewport_upper_left_def viewport_lower_right_def
        DEFAULT_UPPER_LEFT_def DEFAULT_LOWER_RIGHT_def)
  moreover have "max_escape_radius (args_for None) = Some (Finite 100)"
    "flt_lt (Finite 0) (Finite 100)" "mat_variable_names (args_for None) = None"
    by (simp_all add: args_for_def)
  moreover have "convert_matlab example_linalg (args_for None) empty_input_world =
     (Inl MatReadError, empty_input_world)"
    by (simp add: convert_matlab_def loadmat_def exists_def empty_input_world_def args_for_def
        DEFAULT_UPPER_LEFT_def DEFAULT_LOWER_RIGHT_def Let_def)
  moreover have "convert_matlab example_linalg (args_for (Some [])) empty_input_world =
     (Inl MatReadError, empty_input_world)"
    by (simp add: convert_matlab_def loadmat_def exists_def empty_input_world_def args_for_def
        DEFAULT_UPPER_LEFT_def DEFAULT_LOWER_RIGHT_def Let_def)
  moreover have "logged empty_input_world = []" by (simp add: empty_input_world_def)
  ultimately show ?thesis by blast
qed

text \<open>
  Claim C10 as amended: a run on an existing input file that \<^verbatim>\<open>loadmat\<close> can read,
  with a valid bounding box, a positive ceiling and an empty or omitted list of variable
  names writes no file, logs exactly one message, a warning, and returns 0.
\<close>

theorem C10_empty_names_return_zero:
  assumes "exists w (filename args)"
    and "fst (loadmat w (filename args)) = Inr d"
    and "flt_le (fst (viewport_upper_left args)) (fst (viewport_lower_right args))"
    and "flt_le (snd (viewport_lower_right args)) (snd (viewport_upper_left args))"
    and "max_escape_radius args = Some c" and "flt_lt (Finite 0) c"
    and "mat_variable_names args = None \<or> mat_variable_names args = Some []"
  shows "fst (convert_matlab L args w) = Inr 0 \<and>
         files (snd (convert_matlab L args w)) = files w \<and>
         logged (snd (convert_matlab L args w)) =
           logged w @ [(WARNING, ''Failed to read any matrices'')]"
proof -
  obtain w1 where l: "loadmat w (filename args) = (Inr d, w1)"
    using assms(2) by (cases "loadmat w (filename args)") simp
  from loadmat_frame [of w "filename args"] l
  have f: "files w1 = files w" "logged w1 = logged w" by simp_all
  from assms(7) have n: "(case mat_variable_names args of None \<Rightarrow> [] | Some ns \<Rightarrow> ns) = []"
    by auto
  from flt_le_not_lt [OF assms(3)] flt_le_not_lt [OF assms(4)]
  have b: "\<not> flt_lt (fst (case lower_right args of None \<Rightarrow> DEFAULT_LOWER_RIGHT | Some p \<Rightarrow> p))
                   (fst (case upper_left args of None \<Rightarrow> DEFAULT_UPPER_LEFT | Some p \<Rightarrow> p))"
    "\<not> flt_lt (snd (case upper_left args of None \<Rightarrow> DEFAULT_UPPER_LEFT | Some p \<Rightarrow> p))
             (snd (case lower_right args of None \<Rightarrow> DEFAULT_LOWER_RIGHT | Some p \<Rightarrow> p))"
    by (simp_all add: viewport_upper_left_def viewport_lower_right_def)
  show ?thesis
    using assms(1) b flt_lt_not_le [OF assms(6)] assms(5)
    by (simp add: convert_matlab_def Let_def l n f log_warning_def)
qed

theorem C10_empty_names_witness:
  "fst (convert_matlab example_linalg (args_for None) (world_with small_vars)) = Inr 0 \<and>
   files (snd (convert_matlab example_linalg (args_for None) (world_with small_vars))) =
     files (world_with small_vars) \<and>
   logged (snd (convert_matlab example_linalg (args_for None) (world_with small_vars))) =
     [(WARNING, ''Failed to read any matrices'')]"
proof -
  let ?w = "world_with small_vars" and ?a = "args_for None"
  have e: "exists ?w (filename ?a)"
    by (simp add: exists_def world_with_def args_for_def)
  have l: "fst (loadmat ?w (filename ?a)) = Inr (fst (projr (load_vars small_vars Map.empty [])))"
    by (simp add: loadmat_def world_with_def args_for_def small_vars_def new_array_def)
  have x: "flt_le (fst (viewport_upper_left ?a)) (fst (viewport_lower_right ?a))"
    by (simp add: args_for_def viewport_upper_left_def viewport_lower_right_def
        DEFAULT_UPPER_LEFT_def DEFAULT_LOWER_RIGHT_def)
  have y: "flt_le (snd (viewport_lower_right ?a)) (snd (viewport_upper_left ?a))"
    by (simp add: args_for_def viewport_upper_left_def viewport_lower_right_def
        DEFAULT_UPPER_LEFT_def DEFAULT_LOWER_RIGHT_def)
  have c: "max_escape_radius ?a = Some (Finite 100)" "flt_lt (Finite 0) (Finite 100)"
    "mat_variable_names ?a = None \<or> mat_variable_names ?a = Some []"
    by (simp_all add: args_for_def)
  from C10_empty_names_return_zero [OF e l x y c, of example_linalg] show ?thesis
    by (simp add: world_with_def)
qed

end
